theory Spec2Isabelle
  imports Complex_Main
begin

section \<open>Numbers\<close>

text \<open>
  The solver computes with JavaScript numbers.  They are modelled by the real numbers:
  every sum, product and quotient is exact, and there is no NaN and no infinity.  The
  only place where the source can divide by a coefficient that may be zero is
  \<open>Row.solveFor\<close>; there the model stops with the outcome \<open>DivisionByZero\<close>
  instead of continuing with an infinite coefficient.
\<close>

definition eps :: real where
  "eps = 1 / 10 ^ 8"

text \<open>\<open>nearZero\<close> of solver.ts: \<open>value < 0.0 ? -value < eps : value < eps\<close>.\<close>

definition nearZero :: "real \<Rightarrow> bool" where
  "nearZero v = (if v < 0 then - v < eps else v < eps)"

text \<open>\<open>Number.MAX_VALUE\<close>, the start value of the ratio searches.\<close>

definition MAX_VALUE :: real where
  "MAX_VALUE = 17976931348623157 * 10 ^ 292"

section \<open>Errors\<close>

text \<open>
  Every \<open>throw\<close> of the source is a constructor.  \<open>TypeError\<close> stands for the
  property access on \<open>undefined\<close> that JavaScript raises by itself (for example in
  \<open>solveFor\<close> when the symbol is not in the row).
\<close>

datatype error =
    DuplicateConstraint
  | UnsatisfiableConstraint
  | UnknownConstraint
  | FailedToFindLeavingRow
  | DuplicateEditVariable
  | BadRequiredStrength
  | UnknownEditVariable
  | ObjectiveUnbounded
  | SolverIterationsExceeded
  | DualOptimizeFailed
  | ArrayItem1
  | InvalidExpressionArgument
  | TypeError
  | DivisionByZero

fun message :: "error \<Rightarrow> string" where
  "message DuplicateConstraint = ''duplicate constraint''"
| "message UnsatisfiableConstraint = ''unsatisfiable constraint''"
| "message UnknownConstraint = ''unknown constraint''"
| "message FailedToFindLeavingRow = ''failed to find leaving row''"
| "message DuplicateEditVariable = ''duplicate edit variable''"
| "message BadRequiredStrength = ''bad required strength''"
| "message UnknownEditVariable = ''unknown edit variable''"
| "message ObjectiveUnbounded = ''the objective is unbounded''"
| "message SolverIterationsExceeded = ''solver iterations exceeded''"
| "message DualOptimizeFailed = ''dual optimize failed''"
| "message ArrayItem1 = ''array item 1 must be a variable or expression''"
| "message InvalidExpressionArgument = ''invalid Expression argument: undefined''"
| "message TypeError = ''TypeError''"
| "message DivisionByZero = ''division by zero''"

section \<open>The indexed map\<close>

text \<open>
  \<open>IndexedMap\<close> keeps an array of pairs and an object \<open>index\<close> from \<open>key.id()\<close>
  to the position of the key in the array.  The model keeps the array; the index is
  the function \<open>imap_index\<close>, the position of the first pair whose key has the id
  asked for.  The function \<open>idf\<close> is the \<open>id()\<close> method of the key type.
\<close>

type_synonym ('k, 'v) IMap = "('k \<times> 'v) list"

fun imap_index :: "('k \<Rightarrow> int) \<Rightarrow> ('k, 'v) IMap \<Rightarrow> 'k \<Rightarrow> nat option" where
  "imap_index idf [] key = None"
| "imap_index idf (p # ps) key =
     (if idf (fst p) = idf key then Some 0
      else (case imap_index idf ps key of None \<Rightarrow> None | Some i \<Rightarrow> Some (Suc i)))"

definition imap_contains :: "('k \<Rightarrow> int) \<Rightarrow> ('k, 'v) IMap \<Rightarrow> 'k \<Rightarrow> bool" where
  "imap_contains idf m key = (imap_index idf m key \<noteq> None)"

definition imap_find :: "('k \<Rightarrow> int) \<Rightarrow> ('k, 'v) IMap \<Rightarrow> 'k \<Rightarrow> ('k \<times> 'v) option" where
  "imap_find idf m key =
     (case imap_index idf m key of None \<Rightarrow> None | Some i \<Rightarrow> Some (m ! i))"

text \<open>\<open>setDefault\<close> returns the position of the pair together with the map.\<close>

definition imap_setDefault ::
  "('k \<Rightarrow> int) \<Rightarrow> ('k, 'v) IMap \<Rightarrow> 'k \<Rightarrow> 'v \<Rightarrow> nat \<times> ('k, 'v) IMap" where
  "imap_setDefault idf m key v =
     (case imap_index idf m key of
        None \<Rightarrow> (length m, m @ [(key, v)])
      | Some i \<Rightarrow> (i, m))"

definition imap_insert ::
  "('k \<Rightarrow> int) \<Rightarrow> ('k, 'v) IMap \<Rightarrow> 'k \<Rightarrow> 'v \<Rightarrow> ('k, 'v) IMap" where
  "imap_insert idf m key v =
     (case imap_index idf m key of
        None \<Rightarrow> m @ [(key, v)]
      | Some i \<Rightarrow> m[i := (key, v)])"

text \<open>
  \<open>erase\<close> pops the last pair and, when the erased pair was not the last one, stores
  the popped pair in the freed slot.
\<close>

definition imap_erase ::
  "('k \<Rightarrow> int) \<Rightarrow> ('k, 'v) IMap \<Rightarrow> 'k \<Rightarrow> ('k \<times> 'v) option \<times> ('k, 'v) IMap" where
  "imap_erase idf m key =
     (case imap_index idf m key of
        None \<Rightarrow> (None, m)
      | Some i \<Rightarrow>
          (Some (m ! i),
           if i = length m - 1 then butlast m else (butlast m)[i := last m]))"

section \<open>Symbols and rows\<close>

datatype SymbolType = Invalid | External | Slack | Error | Dummy

datatype Symbol = Symbol (sym_type: SymbolType) (sym_id: int)

definition INVALID_SYMBOL :: Symbol where
  "INVALID_SYMBOL = Symbol Invalid (- 1)"

record Row =
  cells :: "(Symbol, real) IMap"
  row_constant :: real

definition Row_new :: "real \<Rightarrow> Row" where
  "Row_new c = \<lparr> cells = [], row_constant = c \<rparr>"

definition isConstant :: "Row \<Rightarrow> bool" where
  "isConstant row = (cells row = [])"

definition allDummies :: "Row \<Rightarrow> bool" where
  "allDummies row = list_all (\<lambda>pair. sym_type (fst pair) = Dummy) (cells row)"

definition copy :: "Row \<Rightarrow> Row" where
  "copy row = \<lparr> cells = cells row, row_constant = row_constant row \<rparr>"

definition add :: "real \<Rightarrow> Row \<Rightarrow> Row" where
  "add v row = row \<lparr> row_constant := row_constant row + v \<rparr>"

definition insertSymbol :: "Symbol \<Rightarrow> real \<Rightarrow> Row \<Rightarrow> Row" where
  "insertSymbol symbol coefficient row =
     (let (i, m1) = imap_setDefault sym_id (cells row) symbol 0;
          c1 = snd (m1 ! i) + coefficient;
          m2 = m1[i := (fst (m1 ! i), c1)]
      in if nearZero c1 then row \<lparr> cells := snd (imap_erase sym_id m2 symbol) \<rparr>
         else row \<lparr> cells := m2 \<rparr>)"

fun insertRow_cells :: "(Symbol, real) IMap \<Rightarrow> real \<Rightarrow> Row \<Rightarrow> Row" where
  "insertRow_cells [] coefficient row = row"
| "insertRow_cells (pair # rest) coefficient row =
     insertRow_cells rest coefficient (insertSymbol (fst pair) (snd pair * coefficient) row)"

definition insertRow :: "Row \<Rightarrow> real \<Rightarrow> Row \<Rightarrow> Row" where
  "insertRow other' coefficient row =
     insertRow_cells (cells other') coefficient
       (row \<lparr> row_constant := row_constant row + row_constant other' * coefficient \<rparr>)"

definition removeSymbol :: "Symbol \<Rightarrow> Row \<Rightarrow> Row" where
  "removeSymbol symbol row = row \<lparr> cells := snd (imap_erase sym_id (cells row) symbol) \<rparr>"

definition reverseSign :: "Row \<Rightarrow> Row" where
  "reverseSign row =
     \<lparr> cells = map (\<lambda>pair. (fst pair, - snd pair)) (cells row), row_constant = - row_constant row \<rparr>"

definition solveFor :: "Symbol \<Rightarrow> Row \<Rightarrow> error + Row" where
  "solveFor symbol row =
     (case imap_erase sym_id (cells row) symbol of
        (None, m) \<Rightarrow> Inl TypeError
      | (Some pair, m) \<Rightarrow>
          if snd pair = 0 then Inl DivisionByZero
          else let coeff = - 1 / snd pair
               in Inr \<lparr> cells = map (\<lambda>p. (fst p, snd p * coeff)) m,
                        row_constant = row_constant row * coeff \<rparr>)"

definition solveForEx :: "Symbol \<Rightarrow> Symbol \<Rightarrow> Row \<Rightarrow> error + Row" where
  "solveForEx lhs rhs row = solveFor rhs (insertSymbol lhs (- 1) row)"

definition coefficientFor :: "Row \<Rightarrow> Symbol \<Rightarrow> real" where
  "coefficientFor row symbol =
     (case imap_find sym_id (cells row) symbol of None \<Rightarrow> 0 | Some pair \<Rightarrow> snd pair)"

definition substitute :: "Symbol \<Rightarrow> Row \<Rightarrow> Row \<Rightarrow> Row" where
  "substitute symbol row this =
     (case imap_erase sym_id (cells this) symbol of
        (None, m) \<Rightarrow> this
      | (Some pair, m) \<Rightarrow> insertRow row (snd pair) (this \<lparr> cells := m \<rparr>))"

section \<open>Strength\<close>

definition create :: "real \<Rightarrow> real \<Rightarrow> real \<Rightarrow> real \<Rightarrow> real" where
  "create a b c w =
     (let result = 0;
          result = result + max 0 (min 1000 (a * w)) * 1000000;
          result = result + max 0 (min 1000 (b * w)) * 1000;
          result = result + max 0 (min 1000 (c * w))
      in result)"

definition required :: real where
  "required = create 1000 1000 1000 1"

definition strong :: real where
  "strong = create 1 0 0 1"

definition medium :: real where
  "medium = create 0 1 0 1"

definition weak :: real where
  "weak = create 0 0 1 1"

definition clip :: "real \<Rightarrow> real" where
  "clip v = max 0 (min required v)"

section \<open>Variables, expressions and constraints\<close>

text \<open>
  A \<open>Variable\<close> object is known by its id; its \<open>_value\<close> field lives in the
  variable store of the last section.  Name and context play no part in the solver.
\<close>

datatype Variable = Variable (var_id: int)

record Expression =
  terms :: "(Variable, real) IMap"
  expr_constant :: real

text \<open>The arguments \<open>parseArgs\<close> tells apart; \<open>Pair k x\<close> is the array \<open>[k, x]\<close>.\<close>

datatype item = Num real | Var Variable | Expr Expression | Pair real item | Undefined

text \<open>\<open>terms.setDefault(v, factory).second += c\<close>\<close>

definition add_term :: "(Variable, real) IMap \<Rightarrow> Variable \<Rightarrow> real \<Rightarrow> (Variable, real) IMap" where
  "add_term ts v c =
     (let (i, m) = imap_setDefault var_id ts v 0
      in m[i := (fst (m ! i), snd (m ! i) + c)])"

fun add_terms ::
  "(real \<Rightarrow> real) \<Rightarrow> (Variable, real) IMap \<Rightarrow> (Variable, real) IMap \<Rightarrow> (Variable, real) IMap" where
  "add_terms f [] ts = ts"
| "add_terms f (termPair # rest) ts = add_terms f rest (add_term ts (fst termPair) (f (snd termPair)))"

fun parseArgs_loop :: "item list \<Rightarrow> real \<Rightarrow> (Variable, real) IMap \<Rightarrow> error + Expression" where
  "parseArgs_loop [] c ts = Inr \<lparr> terms = ts, expr_constant = c \<rparr>"
| "parseArgs_loop (Num x # rest) c ts = parseArgs_loop rest (c + x) ts"
| "parseArgs_loop (Var v # rest) c ts = parseArgs_loop rest c (add_term ts v 1)"
| "parseArgs_loop (Expr e # rest) c ts =
     parseArgs_loop rest (c + expr_constant e) (add_terms (\<lambda>x. x) (terms e) ts)"
| "parseArgs_loop (Pair k (Var v) # rest) c ts = parseArgs_loop rest c (add_term ts v k)"
| "parseArgs_loop (Pair k (Expr e) # rest) c ts =
     parseArgs_loop rest (c + expr_constant e * k) (add_terms (\<lambda>x. x * k) (terms e) ts)"
| "parseArgs_loop (Pair k other' # rest) c ts = Inl ArrayItem1"
| "parseArgs_loop (Undefined # rest) c ts = Inl InvalidExpressionArgument"

definition Expression_new :: "item list \<Rightarrow> error + Expression" where
  "Expression_new args = parseArgs_loop args 0 []"

text \<open>
  \<open>minus\<close> of Variable and of Expression:
  \<open>new Expression(this, typeof value === 'number' ? -value : [-1, value])\<close>.
\<close>

definition minus :: "item \<Rightarrow> item \<Rightarrow> error + Expression" where
  "minus this v =
     (case this of
        Var x \<Rightarrow> Expression_new [this, (case v of Num r \<Rightarrow> Num (- r) | _ \<Rightarrow> Pair (- 1) v)]
      | Expr e \<Rightarrow> Expression_new [this, (case v of Num r \<Rightarrow> Num (- r) | _ \<Rightarrow> Pair (- 1) v)]
      | _ \<Rightarrow> Inl TypeError)"

datatype Operator = Le | Ge | Eq

record Constraint =
  cn_id :: int
  expression :: Expression
  op :: Operator
  strength :: real

text \<open>
  The constructor of \<open>Constraint\<close>.  The id is the value the constructor draws
  from the module counter \<open>CnId\<close>; \<open>rhs = Undefined\<close> is the omitted argument.
\<close>

definition Constraint_new :: "int \<Rightarrow> item \<Rightarrow> Operator \<Rightarrow> item \<Rightarrow> real \<Rightarrow> error + Constraint" where
  "Constraint_new cid lhs operator rhs str =
     (case (case (rhs, lhs) of
              (Undefined, Expr e) \<Rightarrow> Inr e
            | _ \<Rightarrow> minus lhs rhs) of
        Inl e \<Rightarrow> Inl e
      | Inr ex \<Rightarrow> Inr \<lparr> cn_id = cid, expression = ex, op = operator, strength = clip str \<rparr>)"

section \<open>The solver state\<close>

record Tag =
  marker :: Symbol
  other :: Symbol

record EditInfo =
  tag :: Tag
  constraint :: Constraint
  info_constant :: real

record Solver =
  maxIterations :: nat
  cnMap :: "(Constraint, Tag) IMap"
  rowMap :: "(Symbol, Row) IMap"
  varMap :: "(Variable, Symbol) IMap"
  editMap :: "(Variable, EditInfo) IMap"
  infeasibleRows :: "Symbol list"
  objective :: Row
  artificial :: "Row option"
  idTick :: int

definition Solver_new :: Solver where
  "Solver_new =
     \<lparr> maxIterations = 1000, cnMap = [], rowMap = [], varMap = [], editMap = [],
       infeasibleRows = [], objective = Row_new 0, artificial = None, idTick = 0 \<rparr>"

text \<open>A call either returns (\<open>Inr\<close>) or throws (\<open>Inl\<close>) with the state it leaves behind.\<close>

type_synonym outcome = "(error \<times> Solver) + Solver"

definition makeSymbol :: "SymbolType \<Rightarrow> Solver \<Rightarrow> Symbol \<times> Solver" where
  "makeSymbol t s = (Symbol t (idTick s), s \<lparr> idTick := idTick s + 1 \<rparr>)"

definition getVarSymbol :: "Variable \<Rightarrow> Solver \<Rightarrow> Symbol \<times> Solver" where
  "getVarSymbol variable s =
     (case imap_find var_id (varMap s) variable of
        Some pair \<Rightarrow> (snd pair, s)
      | None \<Rightarrow>
          (let (symbol, s1) = makeSymbol External s
           in (symbol, s1 \<lparr> varMap := varMap s1 @ [(variable, symbol)] \<rparr>)))"

section \<open>Row creation and subject choice\<close>

fun createRow_terms :: "(Variable, real) IMap \<Rightarrow> Row \<Rightarrow> Solver \<Rightarrow> Row \<times> Solver" where
  "createRow_terms [] row s = (row, s)"
| "createRow_terms (termPair # rest) row s =
     (if \<not> nearZero (snd termPair) then
        (let (symbol, s1) = getVarSymbol (fst termPair) s
         in case imap_find sym_id (rowMap s1) symbol of
              Some basicPair \<Rightarrow>
                createRow_terms rest (insertRow (snd basicPair) (snd termPair) row) s1
            | None \<Rightarrow> createRow_terms rest (insertSymbol symbol (snd termPair) row) s1)
      else createRow_terms rest row s)"

definition createRow :: "Constraint \<Rightarrow> Solver \<Rightarrow> Row \<times> Tag \<times> Solver" where
  "createRow cn s =
     (let expr = expression cn;
          (row, s1) = createRow_terms (terms expr) (Row_new (expr_constant expr)) s;
          str = strength cn;
          (row, tg, s2) =
            (case op cn of
               Eq \<Rightarrow>
                 if str < required then
                   (let (errplus, sa) = makeSymbol Error s1;
                        (errminus, sb) = makeSymbol Error sa;
                        row = insertSymbol errminus 1 (insertSymbol errplus (- 1) row);
                        obj = insertSymbol errminus str (insertSymbol errplus str (objective sb))
                    in (row, \<lparr> marker = errplus, other = errminus \<rparr>, sb \<lparr> objective := obj \<rparr>))
                 else
                   (let (dummy, sa) = makeSymbol Dummy s1
                    in (insertSymbol dummy 1 row, \<lparr> marker = dummy, other = INVALID_SYMBOL \<rparr>, sa))
             | _ \<Rightarrow>
                 (let coeff = (if op cn = Le then 1 else - 1);
                      (slack, sa) = makeSymbol Slack s1;
                      row = insertSymbol slack coeff row
                  in if str < required then
                       (let (err, sb) = makeSymbol Error sa
                        in (insertSymbol err (- coeff) row, \<lparr> marker = slack, other = err \<rparr>,
                            sb \<lparr> objective := insertSymbol err str (objective sb) \<rparr>))
                     else (row, \<lparr> marker = slack, other = INVALID_SYMBOL \<rparr>, sa)))
      in (if row_constant row < 0 then reverseSign row else row, tg, s2))"

fun firstExternal :: "(Symbol, real) IMap \<Rightarrow> Symbol option" where
  "firstExternal [] = None"
| "firstExternal (pair # rest) =
     (if sym_type (fst pair) = External then Some (fst pair) else firstExternal rest)"

definition chooseSubject :: "Row \<Rightarrow> Tag \<Rightarrow> Symbol" where
  "chooseSubject row tg =
     (case firstExternal (cells row) of
        Some symbol \<Rightarrow> symbol
      | None \<Rightarrow>
          if (sym_type (marker tg) = Slack \<or> sym_type (marker tg) = Error)
             \<and> coefficientFor row (marker tg) < 0 then marker tg
          else if (sym_type (other tg) = Slack \<or> sym_type (other tg) = Error)
             \<and> coefficientFor row (other tg) < 0 then other tg
          else INVALID_SYMBOL)"

section \<open>Pivoting\<close>

text \<open>
  \<open>Solver._substitute\<close>: the loop over the rows, which also records every row with
  a negative constant and a key that is not External, then the objective and the
  artificial row.
\<close>

fun substitute_rows ::
  "Symbol \<Rightarrow> Row \<Rightarrow> (Symbol, Row) IMap \<Rightarrow> Symbol list \<Rightarrow> (Symbol, Row) IMap \<times> Symbol list" where
  "substitute_rows symbol row [] infeasible = ([], infeasible)"
| "substitute_rows symbol row (pair # rest) infeasible =
     (let r = substitute symbol row (snd pair);
          infeasible1 = (if row_constant r < 0 \<and> sym_type (fst pair) \<noteq> External
                  then infeasible @ [fst pair] else infeasible);
          (rest1, infeasible2) = substitute_rows symbol row rest infeasible1
      in ((fst pair, r) # rest1, infeasible2))"

definition solver_substitute :: "Symbol \<Rightarrow> Row \<Rightarrow> Solver \<Rightarrow> Solver" where
  "solver_substitute symbol row s =
     (let (rows, infeasible) = substitute_rows symbol row (rowMap s) (infeasibleRows s)
      in s \<lparr> rowMap := rows, infeasibleRows := infeasible,
             objective := substitute symbol row (objective s),
             artificial := map_option (substitute symbol row) (artificial s) \<rparr>)"

text \<open>
  The three statements that end every pivot of \<open>_optimize\<close>, \<open>_dualOptimize\<close> and
  \<open>_addWithArtificialVariable\<close>, for a row already taken out of the row map:
  \<open>row.solveForEx(leaving, entering); this._substitute(entering, row);
  this._rowMap.insert(entering, row)\<close>.
\<close>

definition pivot :: "Symbol \<Rightarrow> Symbol \<Rightarrow> Row \<Rightarrow> Solver \<Rightarrow> outcome" where
  "pivot leaving entering row s =
     (case solveForEx leaving entering row of
        Inl e \<Rightarrow> Inl (e, s)
      | Inr row1 \<Rightarrow>
          (let s1 = solver_substitute entering row1 s
           in Inr (s1 \<lparr> rowMap := imap_insert sym_id (rowMap s1) entering row1 \<rparr>)))"

fun getEnteringSymbol_cells :: "(Symbol, real) IMap \<Rightarrow> Symbol" where
  "getEnteringSymbol_cells [] = INVALID_SYMBOL"
| "getEnteringSymbol_cells (pair # rest) =
     (if snd pair < 0 \<and> sym_type (fst pair) \<noteq> Dummy then fst pair
      else getEnteringSymbol_cells rest)"

definition getEnteringSymbol :: "Row \<Rightarrow> Symbol" where
  "getEnteringSymbol obj = getEnteringSymbol_cells (cells obj)"



fun getLeavingSymbol_rows :: "Symbol \<Rightarrow> (Symbol, Row) IMap \<Rightarrow> real \<Rightarrow> Symbol \<Rightarrow> Symbol" where
  "getLeavingSymbol_rows entering [] ratio found = found"
| "getLeavingSymbol_rows entering (pair # rest) ratio found =
     (if sym_type (fst pair) \<noteq> External then
        (let temp = coefficientFor (snd pair) entering
         in if temp < 0 then
              (let temp_ratio = - row_constant (snd pair) / temp
               in if temp_ratio < ratio then getLeavingSymbol_rows entering rest temp_ratio (fst pair)
                  else getLeavingSymbol_rows entering rest ratio found)
            else getLeavingSymbol_rows entering rest ratio found)
      else getLeavingSymbol_rows entering rest ratio found)"

definition getLeavingSymbol :: "Symbol \<Rightarrow> Solver \<Rightarrow> Symbol" where
  "getLeavingSymbol entering s = getLeavingSymbol_rows entering (rowMap s) MAX_VALUE INVALID_SYMBOL"

fun getMarkerLeavingSymbol_rows ::
  "Symbol \<Rightarrow> (Symbol, Row) IMap \<Rightarrow> real \<Rightarrow> real \<Rightarrow> Symbol \<Rightarrow> Symbol \<Rightarrow> Symbol \<Rightarrow> Symbol" where
  "getMarkerLeavingSymbol_rows mk [] r1 r2 first second third =
     (if first \<noteq> INVALID_SYMBOL then first
      else if second \<noteq> INVALID_SYMBOL then second
      else third)"
| "getMarkerLeavingSymbol_rows mk (pair # rest) r1 r2 first second third =
     (let c = coefficientFor (snd pair) mk
      in if c = 0 then getMarkerLeavingSymbol_rows mk rest r1 r2 first second third
         else if sym_type (fst pair) = External then
           getMarkerLeavingSymbol_rows mk rest r1 r2 first second (fst pair)
         else if c < 0 then
           (let r = - row_constant (snd pair) / c
            in if r < r1 then getMarkerLeavingSymbol_rows mk rest r r2 (fst pair) second third
               else getMarkerLeavingSymbol_rows mk rest r1 r2 first second third)
         else
           (let r = row_constant (snd pair) / c
            in if r < r2 then getMarkerLeavingSymbol_rows mk rest r1 r first (fst pair) third
               else getMarkerLeavingSymbol_rows mk rest r1 r2 first second third))"

definition getMarkerLeavingSymbol :: "Symbol \<Rightarrow> Solver \<Rightarrow> Symbol" where
  "getMarkerLeavingSymbol mk s =
     getMarkerLeavingSymbol_rows mk (rowMap s) MAX_VALUE MAX_VALUE
       INVALID_SYMBOL INVALID_SYMBOL INVALID_SYMBOL"

fun anyPivotableSymbol_cells :: "(Symbol, real) IMap \<Rightarrow> Symbol" where
  "anyPivotableSymbol_cells [] = INVALID_SYMBOL"
| "anyPivotableSymbol_cells (pair # rest) =
     (if sym_type (fst pair) = Slack \<or> sym_type (fst pair) = Error then fst pair
      else anyPivotableSymbol_cells rest)"

definition anyPivotableSymbol :: "Row \<Rightarrow> Symbol" where
  "anyPivotableSymbol row = anyPivotableSymbol_cells (cells row)"

section \<open>Optimisation\<close>

text \<open>
  \<open>_optimize\<close> is called with \<open>this._objective\<close> or with \<open>this._artificial\<close>; the
  argument is the same object as the field, which \<open>_substitute\<close> rewrites during the
  loop, so the model passes the name of the field and reads it in every round.
\<close>

datatype objective_ref = TheObjective | TheArtificial

definition objective_row :: "objective_ref \<Rightarrow> Solver \<Rightarrow> Row option" where
  "objective_row which s = (case which of TheObjective \<Rightarrow> Some (objective s) | TheArtificial \<Rightarrow> artificial s)"

text \<open>
  The loop \<open>while (iterations < this.maxIterations)\<close>, by the number of rounds that
  are left; with none left the source throws.
\<close>

fun optimize_loop :: "objective_ref \<Rightarrow> nat \<Rightarrow> Solver \<Rightarrow> outcome" where
  "optimize_loop which 0 s = Inl (SolverIterationsExceeded, s)"
| "optimize_loop which (Suc n) s =
     (case objective_row which s of
        None \<Rightarrow> Inl (TypeError, s)
      | Some obj \<Rightarrow>
          (let entering = getEnteringSymbol obj
           in if sym_type entering = Invalid then Inr s
              else
                (let leaving = getLeavingSymbol entering s
                 in if sym_type leaving = Invalid then Inl (ObjectiveUnbounded, s)
                    else
                      (case imap_erase sym_id (rowMap s) leaving of
                         (None, rows) \<Rightarrow> Inl (TypeError, s)
                       | (Some rowPair, rows) \<Rightarrow>
                           (case pivot leaving entering (snd rowPair) (s \<lparr> rowMap := rows \<rparr>) of
                              Inl e \<Rightarrow> Inl e
                            | Inr s1 \<Rightarrow> optimize_loop which n s1)))))"

definition optimize :: "objective_ref \<Rightarrow> Solver \<Rightarrow> outcome" where
  "optimize which s = optimize_loop which (maxIterations s) s"



section \<open>Adding and removing constraints\<close>

definition removeArtificial :: "Symbol \<Rightarrow> Solver \<Rightarrow> Solver" where
  "removeArtificial art s =
     s \<lparr> rowMap := map (\<lambda>pair. (fst pair, removeSymbol art (snd pair))) (rowMap s),
         objective := removeSymbol art (objective s) \<rparr>"

definition addWithArtificialVariable :: "Row \<Rightarrow> Solver \<Rightarrow> (error \<times> Solver) + (bool \<times> Solver)" where
  "addWithArtificialVariable row s =
     (let (art, s1) = makeSymbol Slack s;
          s2 = s1 \<lparr> rowMap := imap_insert sym_id (rowMap s1) art (copy row),
                    artificial := Some (copy row) \<rparr>
      in case optimize TheArtificial s2 of
           Inl e \<Rightarrow> Inl e
         | Inr s3 \<Rightarrow>
             (case artificial s3 of
                None \<Rightarrow> Inl (TypeError, s3)
              | Some a \<Rightarrow>
                  (let success = nearZero (row_constant a);
                       s4 = s3 \<lparr> artificial := None \<rparr>
                   in case imap_erase sym_id (rowMap s4) art of
                        (None, rows) \<Rightarrow> Inr (success, removeArtificial art s4)
                      | (Some pair, rows) \<Rightarrow>
                          (let s5 = s4 \<lparr> rowMap := rows \<rparr>;
                               basicRow = snd pair
                           in if isConstant basicRow then Inr (success, s5)
                              else
                                (let entering = anyPivotableSymbol basicRow
                                 in if sym_type entering = Invalid then Inr (False, s5)
                                    else
                                      (case pivot art entering basicRow s5 of
                                         Inl e \<Rightarrow> Inl e
                                       | Inr s6 \<Rightarrow> Inr (success, removeArtificial art s6)))))))"

text \<open>
  \<open>addConstraint\<close> from the second test of the subject on (line 82): the artificial
  variable when the subject is invalid, the pivot on the subject otherwise, then the
  entry in the constraint map and the optimisation of the objective.
\<close>

definition addConstraint_install :: "Constraint \<Rightarrow> Row \<Rightarrow> Tag \<Rightarrow> Symbol \<Rightarrow> Solver \<Rightarrow> outcome" where
  "addConstraint_install cn row tg subject s =
     (case (if sym_type subject = Invalid then
              (case addWithArtificialVariable row s of
                 Inl e \<Rightarrow> Inl e
               | Inr (ok, s1) \<Rightarrow> if \<not> ok then Inl (UnsatisfiableConstraint, s1) else Inr s1)
            else
              (case solveFor subject row of
                 Inl e \<Rightarrow> Inl (e, s)
               | Inr row1 \<Rightarrow>
                   (let s1 = solver_substitute subject row1 s
                    in Inr (s1 \<lparr> rowMap := imap_insert sym_id (rowMap s1) subject row1 \<rparr>)))) of
        Inl e \<Rightarrow> Inl e
      | Inr s2 \<Rightarrow>
          optimize TheObjective (s2 \<lparr> cnMap := imap_insert cn_id (cnMap s2) cn tg \<rparr>))"

definition addConstraint :: "Constraint \<Rightarrow> Solver \<Rightarrow> outcome" where
  "addConstraint cn s =
     (case imap_find cn_id (cnMap s) cn of
        Some cnPair \<Rightarrow> Inl (DuplicateConstraint, s)
      | None \<Rightarrow>
          (let (row, tg, s1) = createRow cn s;
               subject = chooseSubject row tg
           in if sym_type subject = Invalid \<and> allDummies row then
                (if \<not> nearZero (row_constant row) then Inl (UnsatisfiableConstraint, s1)
                 else addConstraint_install cn row tg (marker tg) s1)
              else addConstraint_install cn row tg subject s1))"

definition removeMarkerEffects :: "Symbol \<Rightarrow> real \<Rightarrow> Solver \<Rightarrow> Solver" where
  "removeMarkerEffects mk str s =
     (case imap_find sym_id (rowMap s) mk of
        Some pair \<Rightarrow> s \<lparr> objective := insertRow (snd pair) (- str) (objective s) \<rparr>
      | None \<Rightarrow> s \<lparr> objective := insertSymbol mk (- str) (objective s) \<rparr>)"

definition removeConstraintEffects :: "Constraint \<Rightarrow> Tag \<Rightarrow> Solver \<Rightarrow> Solver" where
  "removeConstraintEffects cn tg s =
     (let s1 = (if sym_type (marker tg) = Error then removeMarkerEffects (marker tg) (strength cn) s else s)
      in if sym_type (other tg) = Error then removeMarkerEffects (other tg) (strength cn) s1 else s1)"

definition removeConstraint :: "Constraint \<Rightarrow> Solver \<Rightarrow> outcome" where
  "removeConstraint cn s =
     (case imap_erase cn_id (cnMap s) cn of
        (None, cns) \<Rightarrow> Inl (UnknownConstraint, s)
      | (Some cnPair, cns) \<Rightarrow>
          (let s1 = removeConstraintEffects cn (snd cnPair) (s \<lparr> cnMap := cns \<rparr>);
               mk = marker (snd cnPair)
           in case imap_erase sym_id (rowMap s1) mk of
                (Some rowPair, rows) \<Rightarrow> optimize TheObjective (s1 \<lparr> rowMap := rows \<rparr>)
              | (None, rows) \<Rightarrow>
                  (let leaving = getMarkerLeavingSymbol mk s1
                   in if sym_type leaving = Invalid then Inl (FailedToFindLeavingRow, s1)
                      else
                        (case imap_erase sym_id (rowMap s1) leaving of
                           (None, rows1) \<Rightarrow> Inl (TypeError, s1)
                         | (Some rowPair, rows1) \<Rightarrow>
                             (case solveForEx leaving mk (snd rowPair) of
                                Inl e \<Rightarrow> Inl (e, s1 \<lparr> rowMap := rows1 \<rparr>)
                              | Inr row \<Rightarrow>
                                  optimize TheObjective
                                    (solver_substitute mk row (s1 \<lparr> rowMap := rows1 \<rparr>)))))))"

definition hasConstraint :: "Constraint \<Rightarrow> Solver \<Rightarrow> bool" where
  "hasConstraint cn s = imap_contains cn_id (cnMap s) cn"

definition getConstraints :: "Solver \<Rightarrow> Constraint list" where
  "getConstraints s = map fst (cnMap s)"

section \<open>Edit variables\<close>

text \<open>
  \<open>addEditVariable\<close> after the two checks: the new constraint, whose id \<open>cid\<close> is the
  value of the module counter \<open>CnId\<close> at the call, is added and the edit entry stored.
\<close>

definition addEditVariable_install :: "int \<Rightarrow> Variable \<Rightarrow> real \<Rightarrow> Solver \<Rightarrow> outcome" where
  "addEditVariable_install cid variable str s =
     (case Expression_new [Var variable] of
        Inl e \<Rightarrow> Inl (e, s)
      | Inr expr \<Rightarrow>
          (case Constraint_new cid (Expr expr) Eq Undefined str of
             Inl e \<Rightarrow> Inl (e, s)
           | Inr cn \<Rightarrow>
               (case addConstraint cn s of
                  Inl e \<Rightarrow> Inl e
                | Inr s1 \<Rightarrow>
                    (case imap_find cn_id (cnMap s1) cn of
                       None \<Rightarrow> Inl (TypeError, s1)
                     | Some cnPair \<Rightarrow>
                         Inr (s1 \<lparr> editMap := imap_insert var_id (editMap s1) variable
                                     \<lparr> tag = snd cnPair, constraint = cn, info_constant = 0 \<rparr> \<rparr>)))))"

definition addEditVariable :: "int \<Rightarrow> Variable \<Rightarrow> real \<Rightarrow> Solver \<Rightarrow> outcome" where
  "addEditVariable cid variable str s =
     (case imap_find var_id (editMap s) variable of
        Some editPair \<Rightarrow> Inl (DuplicateEditVariable, s)
      | None \<Rightarrow>
          (let str1 = clip str
           in if str1 = required then Inl (BadRequiredStrength, s)
              else addEditVariable_install cid variable str1 s))"

definition removeEditVariable :: "Variable \<Rightarrow> Solver \<Rightarrow> outcome" where
  "removeEditVariable variable s =
     (case imap_erase var_id (editMap s) variable of
        (None, em) \<Rightarrow> Inl (UnknownEditVariable, s)
      | (Some editPair, em) \<Rightarrow> removeConstraint (constraint (snd editPair)) (s \<lparr> editMap := em \<rparr>))"

definition hasEditVariable :: "Variable \<Rightarrow> Solver \<Rightarrow> bool" where
  "hasEditVariable variable s = imap_contains var_id (editMap s) variable"



section \<open>Reading the solution\<close>

text \<open>
  The \<open>_value\<close> fields of the Variable objects are the store \<open>var_values\<close>, from the id of
  a variable to its value (0 when the variable is created).  \<open>updateVariables\<close> works on
  the solver together with the store.
\<close>

record World =
  solver :: Solver
  var_values :: "int \<Rightarrow> real"

definition setValue :: "Variable \<Rightarrow> real \<Rightarrow> World \<Rightarrow> World" where
  "setValue variable v w = w \<lparr> var_values := (var_values w)(var_id variable := v) \<rparr>"

text \<open>\<open>Variable.value()\<close>\<close>

definition value_of :: "Variable \<Rightarrow> World \<Rightarrow> real" where
  "value_of variable w = var_values w (var_id variable)"

fun updateVariables_vars :: "(Variable, Symbol) IMap \<Rightarrow> World \<Rightarrow> World" where
  "updateVariables_vars [] w = w"
| "updateVariables_vars (pair # rest) w =
     (case imap_find sym_id (rowMap (solver w)) (snd pair) of
        Some rowPair \<Rightarrow> updateVariables_vars rest (setValue (fst pair) (row_constant (snd rowPair)) w)
      | None \<Rightarrow> updateVariables_vars rest (setValue (fst pair) 0 w))"

definition updateVariables :: "World \<Rightarrow> World" where
  "updateVariables w = updateVariables_vars (varMap (solver w)) w"

section \<open>Notions used by the properties\<close>

text \<open>The state a call leaves behind, whether it returns or throws.\<close>

definition state_after :: "outcome \<Rightarrow> Solver" where
  "state_after r = (case r of Inl (e, s) \<Rightarrow> s | Inr s \<Rightarrow> s)"

text \<open>The strength encoding in the words of the specification.\<close>

definition clamp :: "real \<Rightarrow> real \<Rightarrow> real \<Rightarrow> real" where
  "clamp x lo hi = (if x < lo then lo else if hi < x then hi else x)"

definition create_spec :: "real \<Rightarrow> real \<Rightarrow> real \<Rightarrow> real \<Rightarrow> real" where
  "create_spec a b c w =
     clamp (a * w) 0 1000 * 10 ^ 6 + clamp (b * w) 0 1000 * 10 ^ 3 + clamp (c * w) 0 1000"

text \<open>
  The subject of a new row in the words of the specification: the first External symbol
  of the row, else the marker, else the other symbol of the tag when it is a Slack or
  Error symbol with a negative coefficient, else the Invalid symbol.
\<close>

definition restricted_negative :: "Row \<Rightarrow> Symbol \<Rightarrow> bool" where
  "restricted_negative row symbol =
     (sym_type symbol \<in> {Slack, Error} \<and> coefficientFor row symbol < 0)"

definition chooseSubject_spec :: "Row \<Rightarrow> Tag \<Rightarrow> Symbol" where
  "chooseSubject_spec row tg =
     (case find (\<lambda>pair. sym_type (fst pair) = External) (cells row) of
        Some pair \<Rightarrow> fst pair
      | None \<Rightarrow>
          if restricted_negative row (marker tg) then marker tg
          else if restricted_negative row (other tg) then other tg
          else INVALID_SYMBOL)"

text \<open>No stored cell of the row has a coefficient within \<open>eps\<close> of zero.\<close>

definition cells_ok :: "Row \<Rightarrow> bool" where
  "cells_ok row = list_all (\<lambda>pair. \<not> \<bar>snd pair\<bar> < 1 / 10 ^ 8) (cells row)"

text \<open>The value \<open>updateVariables\<close> gives to the variable behind a symbol.\<close>

definition basic_value :: "Solver \<Rightarrow> Symbol \<Rightarrow> real" where
  "basic_value s symbol =
     (case imap_find sym_id (rowMap s) symbol of
        Some rowPair \<Rightarrow> row_constant (snd rowPair)
      | None \<Rightarrow> 0)"

subsection \<open>A single edit variable\<close>

text \<open>
  The equation \<open>v = 0\<close> that \<open>addEditVariable\<close> builds for the variable with id \<open>i\<close>,
  and the solver that holds it alone, with \<open>c\<close> the constant of the row of \<open>v\<close>.
\<close>

definition edit_constraint :: "int \<Rightarrow> int \<Rightarrow> real \<Rightarrow> Constraint" where
  "edit_constraint cid i str =
     \<lparr> cn_id = cid, expression = \<lparr> terms = [(Variable i, 1)], expr_constant = 0 \<rparr>,
       op = Eq, strength = str \<rparr>"

definition edit_tableau :: "int \<Rightarrow> int \<Rightarrow> real \<Rightarrow> real \<Rightarrow> Solver" where
  "edit_tableau cid i str c =
     \<lparr> maxIterations = 1000,
       cnMap = [(edit_constraint cid i str, \<lparr> marker = Symbol Error 1, other = Symbol Error 2 \<rparr>)],
       rowMap = [(Symbol External 0,
                  \<lparr> cells = [(Symbol Error 2, - 1), (Symbol Error 1, 1)], row_constant = c \<rparr>)],
       varMap = [(Variable i, Symbol External 0)],
       editMap = [],
       infeasibleRows = [],
       objective = insertSymbol (Symbol Error 2) str (insertSymbol (Symbol Error 1) str (Row_new 0)),
       artificial = None,
       idTick = 3 \<rparr>"

definition edit_state :: "int \<Rightarrow> int \<Rightarrow> real \<Rightarrow> real \<Rightarrow> Solver" where
  "edit_state cid i str c =
     (edit_tableau cid i str c)
       \<lparr> editMap :=
           [(Variable i,
             \<lparr> tag = \<lparr> marker = Symbol Error 1, other = Symbol Error 2 \<rparr>,
               constraint = edit_constraint cid i str, info_constant = c \<rparr>)] \<rparr>"

subsection \<open>Two required bounds that contradict each other\<close>

definition x_var :: Variable where
  "x_var = Variable 0"

definition ge10 :: Constraint where
  "ge10 = \<lparr> cn_id = 0, expression = \<lparr> terms = [(x_var, 1)], expr_constant = - 10 \<rparr>,
            op = Ge, strength = required \<rparr>"

definition le5 :: Constraint where
  "le5 = \<lparr> cn_id = 1, expression = \<lparr> terms = [(x_var, 1)], expr_constant = - 5 \<rparr>,
           op = Le, strength = required \<rparr>"

definition after_ge10 :: Solver where
  "after_ge10 = state_after (addConstraint ge10 Solver_new)"

definition after_le5 :: Solver where
  "after_le5 = state_after (addConstraint le5 after_ge10)"

definition zero_values :: "int \<Rightarrow> real" where
  "zero_values i = 0"




subsection \<open>Well-formed indexed maps\<close>

text \<open>An indexed map holds every key id once; \<open>key_ids\<close> are the ids it holds.\<close>

definition keys_distinct :: "('k \<Rightarrow> int) \<Rightarrow> ('k, 'v) IMap \<Rightarrow> bool" where
  "keys_distinct idf m = distinct (map (\<lambda>p. idf (fst p)) m)"

definition key_ids :: "('k \<Rightarrow> int) \<Rightarrow> ('k, 'v) IMap \<Rightarrow> int set" where
  "key_ids idf m = (\<lambda>p. idf (fst p)) ` set m"


subsection \<open>A required equation, repeated and contradicted\<close>

definition eq3 :: Constraint where
  "eq3 = \<lparr> cn_id = 0, expression = \<lparr> terms = [(x_var, 1)], expr_constant = - 3 \<rparr>,
           op = Eq, strength = required \<rparr>"

definition eq3_again :: Constraint where
  "eq3_again = eq3 \<lparr> cn_id := 1 \<rparr>"

definition eq4 :: Constraint where
  "eq4 = \<lparr> cn_id = 2, expression = \<lparr> terms = [(x_var, 1)], expr_constant = - 4 \<rparr>,
           op = Eq, strength = required \<rparr>"

definition after_eq3 :: Solver where
  "after_eq3 = state_after (addConstraint eq3 Solver_new)"

definition redundant_row :: Row where
  "redundant_row = \<lparr> cells = [(Symbol Dummy 1, - 1), (Symbol Dummy 2, 1)], row_constant = 0 \<rparr>"

definition conflict_row :: Row where
  "conflict_row = \<lparr> cells = [(Symbol Dummy 1, 1), (Symbol Dummy 2, - 1)], row_constant = 1 \<rparr>"

definition dummy2_tag :: Tag where
  "dummy2_tag = \<lparr> marker = Symbol Dummy 2, other = INVALID_SYMBOL \<rparr>"

subsection \<open>Feasibility of the tableau\<close>







subsection \<open>An edit variable under a required bound\<close>



subsection \<open>A bound that fails by less than the tolerance\<close>

text \<open>\<open>x \<ge> 0\<close> and \<open>1.0e-8 * x + 5.0e-9 \<le> 0\<close>, both required.\<close>

definition ge0 :: Constraint where
  "ge0 = \<lparr> cn_id = 0, expression = \<lparr> terms = [(x_var, 1)], expr_constant = 0 \<rparr>,
           op = Ge, strength = required \<rparr>"

definition tiny_le :: Constraint where
  "tiny_le = \<lparr> cn_id = 1,
               expression = \<lparr> terms = [(x_var, 1 / 10 ^ 8)], expr_constant = 5 / 10 ^ 9 \<rparr>,
               op = Le, strength = required \<rparr>"

definition after_ge0 :: Solver where
  "after_ge0 = state_after (addConstraint ge0 Solver_new)"

definition after_tiny_le :: Solver where
  "after_tiny_le = state_after (addConstraint tiny_le after_ge0)"

section \<open>Facts about the indexed map\<close>

subsection \<open>Positions\<close>

lemma imap_index_Some:
  "imap_index idf m k = Some i \<Longrightarrow> i < length m \<and> idf (fst (m ! i)) = idf k"
proof (induction m arbitrary: i)
  case Nil
  then show ?case by simp
next
  case (Cons p ps)
  then show ?case
    by (cases "idf (fst p) = idf k") (auto split: option.splits)
qed

lemma imap_index_None_iff:
  "imap_index idf m k = None \<longleftrightarrow> idf k \<notin> (\<lambda>p. idf (fst p)) ` set m"
  by (induction m) (auto split: option.splits)

lemma imap_index_append:
  "imap_index idf m k = Some i \<Longrightarrow> imap_index idf (m @ xs) k = Some i"
  by (induction m arbitrary: i) (auto split: option.splits if_splits)

lemma imap_index_snoc:
  "imap_index idf m k = None \<Longrightarrow> imap_index idf (m @ [(k, v)]) k = Some (length m)"
  by (induction m) (auto split: option.splits if_splits)

lemma imap_index_update:
  "i < length m \<Longrightarrow> idf k' = idf (fst (m ! i)) \<Longrightarrow>
     imap_index idf (m[i := (k', v)]) k = imap_index idf m k"
proof (induction m arbitrary: i)
  case Nil
  then show ?case by simp
next
  case (Cons p ps)
  then show ?case by (cases i) (auto split: option.splits)
qed


subsection \<open>Finding\<close>





lemma keys_distinct_snoc:
  "keys_distinct idf (m @ [(k, v)]) \<longleftrightarrow> keys_distinct idf m \<and> idf k \<notin> key_ids idf m"
  by (auto simp: keys_distinct_def key_ids_def)





subsection \<open>Erasing\<close>

lemma imap_erase_fst: "fst (imap_erase idf m k) = imap_find idf m k"
  by (simp add: imap_erase_def imap_find_def split: option.splits)

lemma imap_erase_None: "imap_index idf m k = None \<Longrightarrow> imap_erase idf m k = (None, m)"
  by (simp add: imap_erase_def)

lemma imap_erase_elems:
  assumes "imap_index idf m k = Some i" and "x \<in> set (snd (imap_erase idf m k))"
  shows "\<exists>j < length m. j \<noteq> i \<and> x = m ! j"
proof -
  from imap_index_Some [OF assms(1)] have i: "i < length m" by simp
  show ?thesis
  proof (cases "i = length m - 1")
    case True
    with assms have "x \<in> set (butlast m)" by (simp add: imap_erase_def)
    then obtain j where "j < length (butlast m)" "x = butlast m ! j"
      by (auto simp: in_set_conv_nth)
    with True show ?thesis by (auto simp: nth_butlast intro!: exI [of _ j])
  next
    case False
    with assms have "x \<in> set ((butlast m)[i := last m])" by (simp add: imap_erase_def)
    then obtain j where j: "j < length (butlast m)" "x = (butlast m)[i := last m] ! j"
      by (auto simp: in_set_conv_nth)
    show ?thesis
    proof (cases "j = i")
      case True
      with j i have "x = m ! (length m - 1)"
        by (cases m rule: rev_cases) (auto simp: last_conv_nth)
      with False i show ?thesis by (auto intro!: exI [of _ "length m - 1"])
    next
      case False
      with j have "x = m ! j" by (simp add: nth_butlast)
      with False j show ?thesis by (auto intro!: exI [of _ j])
    qed
  qed
qed

lemma imap_erase_subset: "set (snd (imap_erase idf m k)) \<subseteq> set m"
proof (cases "imap_index idf m k")
  case None
  then show ?thesis by (simp add: imap_erase_def)
next
  case (Some i)
  show ?thesis
  proof
    fix x assume "x \<in> set (snd (imap_erase idf m k))"
    from imap_erase_elems [OF Some this] show "x \<in> set m" by auto
  qed
qed






subsection \<open>Inserting\<close>

text \<open>
  With \<open>erase\<close> above, every operation that writes an indexed map keeps each id once;
  in the solver the variable map is written by \<open>_getVarSymbol\<close> alone.
\<close>

lemma imap_insert_keys_distinct:
  assumes "keys_distinct idf m"
  shows "keys_distinct idf (imap_insert idf m k v)"
proof (cases "imap_index idf m k")
  case None
  then have "idf k \<notin> key_ids idf m" by (simp add: imap_index_None_iff key_ids_def)
  with assms None show ?thesis by (simp add: imap_insert_def keys_distinct_snoc)
next
  case (Some i)
  from imap_index_Some [OF Some] have i: "i < length m" "idf (fst (m ! i)) = idf k" by simp_all
  then have "map (\<lambda>p. idf (fst p)) (m[i := (k, v)]) = map (\<lambda>p. idf (fst p)) m"
    by (simp add: map_update list_update_same_conv)
  with assms Some show ?thesis by (simp add: imap_insert_def keys_distinct_def)
qed

lemma imap_setDefault_keys_distinct:
  assumes "keys_distinct idf m"
  shows "keys_distinct idf (snd (imap_setDefault idf m k v))"
proof (cases "imap_index idf m k")
  case None
  then have "idf k \<notin> key_ids idf m" by (simp add: imap_index_None_iff key_ids_def)
  with assms None show ?thesis by (simp add: imap_setDefault_def keys_distinct_snoc)
next
  case (Some i)
  with assms show ?thesis by (simp add: imap_setDefault_def)
qed

lemma getVarSymbol_varMap_distinct:
  assumes "keys_distinct var_id (varMap s)"
  shows "keys_distinct var_id (varMap (snd (getVarSymbol variable s)))"
proof (cases "imap_index var_id (varMap s) variable")
  case None
  then have "var_id variable \<notin> key_ids var_id (varMap s)"
    by (simp add: imap_index_None_iff key_ids_def)
  with assms None show ?thesis
    by (simp add: getVarSymbol_def imap_find_def makeSymbol_def keys_distinct_snoc)
next
  case (Some i)
  with assms show ?thesis by (simp add: getVarSymbol_def imap_find_def)
qed

section \<open>Evaluation\<close>

lemmas row_defs = insertSymbol_def insertRow_def solveFor_def solveForEx_def substitute_def
  coefficientFor_def reverseSign_def removeSymbol_def Row_new_def copy_def add_def
  isConstant_def allDummies_def

lemmas imap_defs = imap_find_def imap_insert_def imap_erase_def imap_setDefault_def
  imap_contains_def

lemma nearZero_abs: "nearZero v \<longleftrightarrow> \<bar>v\<bar> < 1 / 10 ^ 8"
  by (simp add: nearZero_def eps_def abs_if)

lemma nearZero_simps:
  "nearZero 0" "\<not> nearZero 1" "\<not> nearZero (- 1)"
  by (simp_all add: nearZero_def eps_def)

lemma required_value: "required = 1001001000"
  by (simp add: required_def create_def)

lemma strong_value: "strong = 1000000"
  by (simp add: strong_def create_def)


lemma optimize_at_minimum:
  "0 < maxIterations s \<Longrightarrow> sym_type (getEnteringSymbol (objective s)) = Invalid
     \<Longrightarrow> optimize TheObjective s = Inr s"
  by (cases "maxIterations s") (simp_all add: optimize_def objective_row_def)

subsection \<open>The required bounds on x\<close>

lemma ge10_built: "Constraint_new 0 (Var x_var) Ge (Num 10) required = Inr ge10"
  by code_simp

lemma le5_built: "Constraint_new 1 (Var x_var) Le (Num 5) required = Inr le5"
  by code_simp

lemma add_ge10: "addConstraint ge10 Solver_new = Inr after_ge10"
  by code_simp

lemma add_le5: "addConstraint le5 after_ge10 = Inl (UnsatisfiableConstraint, after_le5)"
  by code_simp

lemma after_ge10_rows:
  "rowMap after_ge10 = [(Symbol External 0, \<lparr> cells = [(Symbol Slack 1, 1)], row_constant = 10 \<rparr>)]"
  by code_simp

lemma after_ge10_constraints: "cnMap after_ge10 = [(ge10, \<lparr> marker = Symbol Slack 1, other = INVALID_SYMBOL \<rparr>)]"
  by code_simp

lemma after_ge10_vars: "varMap after_ge10 = [(x_var, Symbol External 0)]"
  by code_simp

lemma after_le5_rows:
  "rowMap after_le5 =
     [(Symbol External 0, \<lparr> cells = [(Symbol Slack 2, - 1)], row_constant = 5 \<rparr>),
      (Symbol Slack 1, \<lparr> cells = [(Symbol Slack 2, - 1)], row_constant = - 5 \<rparr>)]"
  by code_simp

lemma after_le5_has: "hasConstraint ge10 after_le5"
  by code_simp

lemma after_le5_value:
  "value_of x_var (updateVariables \<lparr> solver = after_le5, var_values = zero_values \<rparr>) = 5"
  by code_simp

lemma remove_ge10: "removeConstraint ge10 after_ge10 = Inr (after_ge10 \<lparr> cnMap := [], rowMap := [] \<rparr>)"
  by code_simp

section \<open>Strength values\<close>

lemma create_clamp: "create a b c w = create_spec a b c w"
  by (simp add: create_def create_spec_def clamp_def Let_def max_def min_def)

text \<open>
  C7, as stated, gives the required strength the value \<open>1.001e9\<close>.  The three levels of
  \<open>create(1000, 1000, 1000)\<close> add up to 1001001000.
\<close>

theorem required_is_not_1001e6: "required \<noteq> 1001 * 10 ^ 6"
  by (simp add: required_value)

text \<open>
  C7 (amended): \<open>Strength.create(a, b, c, w)\<close> is
  \<open>clamp(a*w, 0, 1000) * 10^6 + clamp(b*w, 0, 1000) * 10^3 + clamp(c*w, 0, 1000)\<close>, and the
  named strengths are \<open>required = create(1000, 1000, 1000) = 1001001000\<close>,
  \<open>strong = create(1, 0, 0) = 10^6\<close>, \<open>medium = create(0, 1, 0) = 10^3\<close> and
  \<open>weak = create(0, 0, 1) = 1\<close>, with the weight 1 that \<open>create\<close> takes by default.
\<close>

theorem strength_encoding:
  "create a b c w = create_spec a b c w
   \<and> required = create 1000 1000 1000 1 \<and> required = 1001001000
   \<and> strong = create 1 0 0 1 \<and> strong = 10 ^ 6
   \<and> medium = create 0 1 0 1 \<and> medium = 10 ^ 3
   \<and> weak = create 0 0 1 1 \<and> weak = 1"
proof (intro conjI)
  show "create a b c w = create_spec a b c w" by (rule create_clamp)
  show "required = create 1000 1000 1000 1" by (rule required_def)
  show "required = 1001001000" by (rule required_value)
  show "strong = create 1 0 0 1" by (rule strong_def)
  show "strong = 10 ^ 6" by (simp add: strong_def create_def)
  show "medium = create 0 1 0 1" by (rule medium_def)
  show "medium = 10 ^ 3" by (simp add: medium_def create_def)
  show "weak = create 0 0 1 1" by (rule weak_def)
  show "weak = 1" by (simp add: weak_def create_def)
qed

section \<open>Reading the solution\<close>

lemma updateVariables_vars_solver: "solver (updateVariables_vars vs w) = solver w"
  by (induction vs arbitrary: w) (auto simp: setValue_def split: option.splits)

lemma updateVariables_vars_other:
  "var_id v \<notin> (\<lambda>p. var_id (fst p)) ` set vs \<Longrightarrow>
     var_values (updateVariables_vars vs w) (var_id v) = var_values w (var_id v)"
  by (induction vs arbitrary: w) (auto simp: setValue_def split: option.splits)

lemma updateVariables_vars_value:
  "distinct (map (\<lambda>p. var_id (fst p)) vs) \<Longrightarrow> (v, symbol) \<in> set vs \<Longrightarrow>
     var_values (updateVariables_vars vs w) (var_id v) = basic_value (solver w) symbol"
proof (induction vs arbitrary: w)
  case Nil
  then show ?case by simp
next
  case (Cons p ps)
  show ?case
  proof (cases "p = (v, symbol)")
    case True
    from Cons.prems(1) True have "var_id v \<notin> (\<lambda>p. var_id (fst p)) ` set ps"
      by (auto simp: image_iff)
    then show ?thesis using True
      by (auto simp: updateVariables_vars_other setValue_def basic_value_def split: option.splits)
  next
    case False
    with Cons.prems have "(v, symbol) \<in> set ps" "distinct (map (\<lambda>p. var_id (fst p)) ps)"
      by auto
    then show ?thesis using Cons.IH
      by (auto simp: setValue_def split: option.splits)
  qed
qed

text \<open>
  C6: \<open>updateVariables\<close> gives every variable of the variable map the constant of the row
  keyed by its symbol, and 0 when no row has that key.  The variable map is an indexed
  map, so it holds each variable once.
\<close>

theorem updateVariables_values:
  assumes "distinct (map (\<lambda>p. var_id (fst p)) (varMap (solver w)))"
    and "(v, symbol) \<in> set (varMap (solver w))"
  shows "value_of v (updateVariables w) =
           (case imap_find sym_id (rowMap (solver w)) symbol of
              Some rowPair \<Rightarrow> row_constant (snd rowPair)
            | None \<Rightarrow> 0)
         \<and> (sym_id symbol \<notin> (\<lambda>p. sym_id (fst p)) ` set (rowMap (solver w))
              \<longrightarrow> value_of v (updateVariables w) = 0)"
proof -
  have "value_of v (updateVariables w) = basic_value (solver w) symbol"
    using updateVariables_vars_value [OF assms]
    by (simp add: value_of_def updateVariables_def)
  moreover have "basic_value (solver w) symbol = 0"
    if "sym_id symbol \<notin> (\<lambda>p. sym_id (fst p)) ` set (rowMap (solver w))"
  proof -
    from that have "imap_index sym_id (rowMap (solver w)) symbol = None"
      by (simp only: imap_index_None_iff not_False_eq_True)
    then show ?thesis by (simp add: basic_value_def imap_find_def)
  qed
  ultimately show ?thesis
    by (simp add: basic_value_def)
qed

text \<open>
  C6 in the solver that holds \<open>x \<ge> 10\<close>: the row of \<open>x\<close> has the constant 10.
\<close>

theorem updateVariables_values_witness:
  "distinct (map (\<lambda>p. var_id (fst p)) (varMap (solver \<lparr> solver = after_ge10, var_values = zero_values \<rparr>)))
   \<and> (x_var, Symbol External 0) \<in> set (varMap (solver \<lparr> solver = after_ge10, var_values = zero_values \<rparr>))
   \<and> value_of x_var (updateVariables \<lparr> solver = after_ge10, var_values = zero_values \<rparr>) = 10"
proof -
  let ?w = "\<lparr> solver = after_ge10, var_values = zero_values \<rparr>"
  have d: "distinct (map (\<lambda>p. var_id (fst p)) (varMap (solver ?w)))"
    by (simp add: after_ge10_vars)
  have m: "(x_var, Symbol External 0) \<in> set (varMap (solver ?w))"
    by (simp add: after_ge10_vars)
  from updateVariables_values [OF d m] d m show ?thesis
    by (simp add: after_ge10_rows imap_defs)
qed

text \<open>
  C10: \<open>updateVariables\<close> leaves the solver as it is (the row map, the objective, the
  constraint, variable and edit maps and the list of infeasible rows), and writes the
  value of no variable outside the variable map.
\<close>

theorem updateVariables_frame:
  "solver (updateVariables w) = solver w
   \<and> rowMap (solver (updateVariables w)) = rowMap (solver w)
   \<and> objective (solver (updateVariables w)) = objective (solver w)
   \<and> cnMap (solver (updateVariables w)) = cnMap (solver w)
   \<and> varMap (solver (updateVariables w)) = varMap (solver w)
   \<and> editMap (solver (updateVariables w)) = editMap (solver w)
   \<and> infeasibleRows (solver (updateVariables w)) = infeasibleRows (solver w)
   \<and> (\<forall>v. var_id v \<notin> (\<lambda>p. var_id (fst p)) ` set (varMap (solver w))
          \<longrightarrow> value_of v (updateVariables w) = value_of v w)"
  by (simp add: updateVariables_def updateVariables_vars_solver updateVariables_vars_other
      value_of_def)

text \<open>
  C10 in the same solver, for a variable the solver has never seen.
\<close>

theorem updateVariables_frame_witness:
  "solver (updateVariables \<lparr> solver = after_ge10, var_values = zero_values \<rparr>) = after_ge10
   \<and> var_id (Variable 7) \<notin> (\<lambda>p. var_id (fst p)) ` set (varMap after_ge10)
   \<and> value_of (Variable 7) (updateVariables \<lparr> solver = after_ge10, var_values = zero_values \<rparr>) = 0"
proof -
  let ?w = "\<lparr> solver = after_ge10, var_values = zero_values \<rparr>"
  note f = updateVariables_frame [of ?w]
  have n: "var_id (Variable 7) \<notin> (\<lambda>p. var_id (fst p)) ` set (varMap after_ge10)"
    by (simp add: after_ge10_vars x_var_def)
  from f have "solver (updateVariables ?w) = solver ?w" by blast
  moreover from f n have "value_of (Variable 7) (updateVariables ?w) = value_of (Variable 7) ?w"
    by simp
  ultimately show ?thesis using n by (simp add: value_of_def zero_values_def)
qed

section \<open>Row arithmetic and near-zero cells\<close>

lemma insertSymbol_absent:
  assumes "imap_index sym_id (cells row) symbol = None"
  shows "insertSymbol symbol c row =
           (if nearZero c then row else row \<lparr> cells := cells row @ [(symbol, c)] \<rparr>)"
proof -
  have "imap_index sym_id (cells row @ [(symbol, c)]) symbol = Some (length (cells row))"
    using assms by (rule imap_index_snoc)
  then show ?thesis using assms
    by (simp add: insertSymbol_def imap_setDefault_def imap_erase_def)
qed

lemma insertSymbol_present:
  assumes "imap_index sym_id (cells row) symbol = Some i"
  shows "insertSymbol symbol c row =
           (if nearZero (snd (cells row ! i) + c)
            then row \<lparr> cells := snd (imap_erase sym_id
                     ((cells row)[i := (fst (cells row ! i), snd (cells row ! i) + c)]) symbol) \<rparr>
            else row \<lparr> cells := (cells row)[i := (fst (cells row ! i), snd (cells row ! i) + c)] \<rparr>)"
  using assms by (simp add: insertSymbol_def imap_setDefault_def Let_def)

lemma insertSymbol_constant [simp]: "row_constant (insertSymbol symbol c row) = row_constant row"
  by (simp add: insertSymbol_def Let_def split: prod.splits)

lemma insertSymbol_cells_ok:
  assumes "cells_ok row"
  shows "cells_ok (insertSymbol symbol c row)"
proof (cases "imap_index sym_id (cells row) symbol")
  case None
  with assms show ?thesis
    by (simp add: insertSymbol_absent cells_ok_def nearZero_abs)
next
  case (Some i)
  let ?c = "snd (cells row ! i) + c"
  let ?m = "(cells row)[i := (fst (cells row ! i), ?c)]"
  from imap_index_Some [OF Some] have i: "i < length (cells row)" by simp
  have others: "\<not> \<bar>snd (?m ! j)\<bar> < 1 / 10 ^ 8" if "j < length ?m" "j \<noteq> i" for j
    using that assms by (auto simp: cells_ok_def list_all_length)
  show ?thesis
  proof (cases "nearZero ?c")
    case True
    have ix: "imap_index sym_id ?m symbol = Some i"
      using Some i by (simp add: imap_index_update)
    have "\<not> \<bar>snd x\<bar> < 1 / 10 ^ 8" if "x \<in> set (snd (imap_erase sym_id ?m symbol))" for x
      using imap_erase_elems [OF ix that] others by auto
    with True Some show ?thesis
      by (simp add: insertSymbol_present cells_ok_def list_all_iff)
  next
    case False
    have "\<not> \<bar>snd (?m ! j)\<bar> < 1 / 10 ^ 8" if "j < length ?m" for j
      using that others [of j] False i by (cases "j = i") (auto simp: nearZero_abs)
    with False Some show ?thesis
      by (simp add: insertSymbol_present cells_ok_def list_all_length)
  qed
qed

lemma insertRow_cells_cells_ok:
  "cells_ok row \<Longrightarrow> cells_ok (insertRow_cells m c row)"
  by (induction m arbitrary: row) (simp_all add: insertSymbol_cells_ok)

lemma insertRow_cells_ok: "cells_ok row \<Longrightarrow> cells_ok (insertRow other' c row)"
  unfolding insertRow_def by (rule insertRow_cells_cells_ok) (simp add: cells_ok_def)

lemma reverseSign_cells_ok: "cells_ok row \<Longrightarrow> cells_ok (reverseSign row)"
  by (simp add: reverseSign_def cells_ok_def list_all_iff)

lemma substitute_cells_ok:
  assumes "cells_ok row"
  shows "cells_ok (substitute symbol other' row)"
proof (cases "imap_erase sym_id (cells row) symbol")
  case (Pair found m)
  then have "set m \<subseteq> set (cells row)"
    using imap_erase_subset [of sym_id "cells row" symbol] by simp
  with assms have "cells_ok (row \<lparr> cells := m \<rparr>)"
    by (auto simp: cells_ok_def list_all_iff)
  with Pair assms show ?thesis
    by (cases found) (simp_all add: substitute_def insertRow_cells_ok)
qed

lemma solveFor_cells_ok:
  assumes "cells_ok row" and "solveFor symbol row = Inr row1"
    and "\<bar>coefficientFor row symbol\<bar> \<le> 1"
  shows "cells_ok row1"
proof (cases "imap_erase sym_id (cells row) symbol")
  case (Pair found m)
  with assms(2) obtain pair where f: "found = Some pair" and nz: "snd pair \<noteq> 0"
    and r: "row1 = \<lparr> cells = map (\<lambda>p. (fst p, snd p * (- 1 / snd pair))) m,
                     row_constant = row_constant row * (- 1 / snd pair) \<rparr>"
    by (cases found) (auto simp: solveFor_def Let_def split: if_splits)
  from Pair f have "imap_find sym_id (cells row) symbol = Some pair"
    using imap_erase_fst [of sym_id "cells row" symbol] by simp
  with assms(3) have k: "\<bar>snd pair\<bar> \<le> 1" by (simp add: coefficientFor_def)
  from Pair have sub: "set m \<subseteq> set (cells row)"
    using imap_erase_subset [of sym_id "cells row" symbol] by simp
  have "\<not> \<bar>snd p * (- 1 / snd pair)\<bar> < 1 / 10 ^ 8" if "p \<in> set m" for p
  proof -
    from that sub assms(1) have a: "1 / 10 ^ 8 \<le> \<bar>snd p\<bar>"
      by (auto simp: cells_ok_def list_all_iff not_less)
    have "\<bar>snd p\<bar> * \<bar>snd pair\<bar> \<le> \<bar>snd p\<bar> * 1"
      using k by (intro mult_left_mono) simp_all
    then have "\<bar>snd p\<bar> \<le> \<bar>snd p\<bar> / \<bar>snd pair\<bar>"
      using nz by (simp add: le_divide_eq)
    also have "\<dots> = \<bar>snd p * (- 1 / snd pair)\<bar>" by (simp add: abs_mult)
    finally have "1 / 10 ^ 8 \<le> \<bar>snd p * (- 1 / snd pair)\<bar>" using a by linarith
    then show ?thesis by (simp only: not_less)
  qed
  with r show ?thesis by (simp add: cells_ok_def list_all_iff)
qed

text \<open>
  C8, as stated, fails for \<open>solveFor\<close>: solving \<open>100 x + 1.0e-7 s\<close> for \<open>x\<close> leaves the
  cell of \<open>s\<close> with the coefficient \<open>-1.0e-9\<close>.
\<close>

theorem solveFor_shrinks_cell:
  "cells_ok \<lparr> cells = [(Symbol External 0, 100), (Symbol Slack 1, 1 / 10 ^ 7)], row_constant = 0 \<rparr>
   \<and> solveFor (Symbol External 0)
        \<lparr> cells = [(Symbol External 0, 100), (Symbol Slack 1, 1 / 10 ^ 7)], row_constant = 0 \<rparr>
       = Inr \<lparr> cells = [(Symbol Slack 1, - (1 / 10 ^ 9))], row_constant = 0 \<rparr>
   \<and> \<not> cells_ok \<lparr> cells = [(Symbol Slack 1, - (1 / 10 ^ 9))], row_constant = 0 \<rparr>"
  by (simp add: cells_ok_def solveFor_def imap_erase_def)

text \<open>
  C8 (amended): \<open>insertSymbol\<close>, \<open>insertRow\<close>, \<open>reverseSign\<close> and \<open>substitute\<close> keep
  every stored coefficient at least \<open>1.0e-8\<close> away from zero (a cell that an insert
  brings nearer is erased); \<open>solveFor\<close> and \<open>solveForEx\<close> scale the cells by \<open>-1/k\<close>
  and erase nothing, so they keep the property when the coefficient \<open>k\<close> of the symbol
  solved for is at most 1 in absolute value.
\<close>

theorem row_operations_keep_cells:
  assumes "cells_ok row"
  shows "cells_ok (insertSymbol symbol c row)
       \<and> cells_ok (insertRow other_row c row)
       \<and> cells_ok (reverseSign row)
       \<and> cells_ok (substitute symbol other_row row)
       \<and> (\<forall>row1. solveFor symbol row = Inr row1 \<and> \<bar>coefficientFor row symbol\<bar> \<le> 1
             \<longrightarrow> cells_ok row1)
       \<and> (\<forall>row1. solveForEx lhs rhs row = Inr row1
               \<and> \<bar>coefficientFor (insertSymbol lhs (- 1) row) rhs\<bar> \<le> 1
             \<longrightarrow> cells_ok row1)"
proof -
  have a: "cells_ok row1"
    if "solveFor symbol row = Inr row1" "\<bar>coefficientFor row symbol\<bar> \<le> 1" for row1
    using assms that by (rule solveFor_cells_ok)
  have b: "cells_ok row1"
    if "solveForEx lhs rhs row = Inr row1"
       "\<bar>coefficientFor (insertSymbol lhs (- 1) row) rhs\<bar> \<le> 1" for row1
    using insertSymbol_cells_ok [OF assms, of lhs "- 1"] that
    unfolding solveForEx_def by (rule solveFor_cells_ok)
  from a b assms show ?thesis
    by (simp add: insertSymbol_cells_ok insertRow_cells_ok reverseSign_cells_ok
        substitute_cells_ok)
qed

text \<open>The row \<open>3 + x/2 + s\<close>: an insert that cancels \<open>s\<close>, and solving for \<open>x\<close>.\<close>

theorem row_operations_keep_cells_witness:
  "cells_ok \<lparr> cells = [(Symbol External 0, 1 / 2), (Symbol Slack 1, 1)], row_constant = 3 \<rparr>
   \<and> insertSymbol (Symbol Slack 1) (- 1)
        \<lparr> cells = [(Symbol External 0, 1 / 2), (Symbol Slack 1, 1)], row_constant = 3 \<rparr>
       = \<lparr> cells = [(Symbol External 0, 1 / 2)], row_constant = 3 \<rparr>
   \<and> cells_ok \<lparr> cells = [(Symbol External 0, 1 / 2)], row_constant = 3 \<rparr>
   \<and> solveFor (Symbol External 0)
        \<lparr> cells = [(Symbol External 0, 1 / 2), (Symbol Slack 1, 1)], row_constant = 3 \<rparr>
       = Inr \<lparr> cells = [(Symbol Slack 1, - 2)], row_constant = - 6 \<rparr>
   \<and> cells_ok \<lparr> cells = [(Symbol Slack 1, - 2)], row_constant = - 6 \<rparr>"
proof -
  let ?row = "\<lparr> cells = [(Symbol External 0, 1 / 2), (Symbol Slack 1, 1)], row_constant = 3 \<rparr>"
  have ok: "cells_ok ?row" by (simp add: cells_ok_def)
  have ins: "insertSymbol (Symbol Slack 1) (- 1) ?row
               = \<lparr> cells = [(Symbol External 0, 1 / 2)], row_constant = 3 \<rparr>"
    by (simp add: insertSymbol_def imap_setDefault_def imap_erase_def nearZero_def eps_def)
  have sol: "solveFor (Symbol External 0) ?row
               = Inr \<lparr> cells = [(Symbol Slack 1, - 2)], row_constant = - 6 \<rparr>"
    by (simp add: solveFor_def imap_erase_def)
  have co: "\<bar>coefficientFor ?row (Symbol External 0)\<bar> \<le> 1"
    by (simp add: coefficientFor_def imap_find_def)
  from row_operations_keep_cells [OF ok, where symbol = "Symbol Slack 1" and c = "- 1"] ins
  have c1: "cells_ok \<lparr> cells = [(Symbol External 0, 1 / 2)], row_constant = 3 \<rparr>"
    by simp
  from row_operations_keep_cells [OF ok, where symbol = "Symbol External 0"] sol co
  have c2: "cells_ok \<lparr> cells = [(Symbol Slack 1, - 2)], row_constant = - 6 \<rparr>"
    by blast
  from ok ins sol c1 c2 show ?thesis by simp
qed

section \<open>The subject of a new row\<close>

lemma firstExternal_find:
  "firstExternal m = map_option fst (find (\<lambda>pair. sym_type (fst pair) = External) m)"
  by (induction m) simp_all

lemma chooseSubject_refines: "chooseSubject row tg = chooseSubject_spec row tg"
  by (cases "find (\<lambda>pair. sym_type (fst pair) = External) (cells row)")
     (auto simp: chooseSubject_def chooseSubject_spec_def firstExternal_find restricted_negative_def)

text \<open>
  C5: the subject \<open>_chooseSubject\<close> picks for the row and tag of \<open>_createRow\<close> is the
  first External symbol of the row, else the marker when it is a Slack or Error symbol
  with a negative coefficient, else the other symbol on the same condition, else the
  Invalid symbol; with an Invalid subject and a row of Dummy symbols only, \<open>addConstraint\<close>
  goes on with the marker as subject when the constant is within \<open>1.0e-8\<close> of zero and
  throws 'unsatisfiable constraint' otherwise.
\<close>

theorem subject_precedence:
  assumes "\<not> hasConstraint cn s" and "createRow cn s = (row, tg, s1)"
  shows "chooseSubject row tg = chooseSubject_spec row tg
     \<and> message UnsatisfiableConstraint = ''unsatisfiable constraint''
     \<and> (sym_type (chooseSubject row tg) = Invalid \<and> allDummies row \<longrightarrow>
          (if \<bar>row_constant row\<bar> < 1 / 10 ^ 8
           then addConstraint cn s = addConstraint_install cn row tg (marker tg) s1
           else addConstraint cn s = Inl (UnsatisfiableConstraint, s1)))
     \<and> (\<not> (sym_type (chooseSubject row tg) = Invalid \<and> allDummies row) \<longrightarrow>
          addConstraint cn s = addConstraint_install cn row tg (chooseSubject row tg) s1)"
proof -
  from assms(1) have "imap_find cn_id (cnMap s) cn = None"
    by (simp add: hasConstraint_def imap_contains_def imap_find_def)
  with assms(2) show ?thesis
    by (simp add: addConstraint_def chooseSubject_refines nearZero_abs Let_def)
qed

lemma add_eq3: "addConstraint eq3 Solver_new = Inr after_eq3"
  by code_simp

lemma createRow_eq3_again:
  "createRow eq3_again after_eq3 = (redundant_row, dummy2_tag, after_eq3 \<lparr> idTick := 3 \<rparr>)"
  by code_simp

lemma createRow_eq4:
  "createRow eq4 after_eq3 = (conflict_row, dummy2_tag, after_eq3 \<lparr> idTick := 3 \<rparr>)"
  by code_simp

lemma eq3_not_held:
  "\<not> hasConstraint eq3_again after_eq3" "\<not> hasConstraint eq4 after_eq3"
  by code_simp+

lemma dummy_rows_invalid:
  "sym_type (chooseSubject redundant_row dummy2_tag) = Invalid \<and> allDummies redundant_row"
  "sym_type (chooseSubject conflict_row dummy2_tag) = Invalid \<and> allDummies conflict_row"
  by code_simp+

text \<open>After \<open>x = 3\<close>: the same equation again is redundant, \<open>x = 4\<close> is unsatisfiable.\<close>

theorem subject_precedence_witness:
  "\<not> hasConstraint eq3_again after_eq3
   \<and> createRow eq3_again after_eq3 = (redundant_row, dummy2_tag, after_eq3 \<lparr> idTick := 3 \<rparr>)
   \<and> sym_type (chooseSubject redundant_row dummy2_tag) = Invalid \<and> allDummies redundant_row
   \<and> addConstraint eq3_again after_eq3
       = addConstraint_install eq3_again redundant_row dummy2_tag (Symbol Dummy 2)
           (after_eq3 \<lparr> idTick := 3 \<rparr>)
   \<and> \<not> hasConstraint eq4 after_eq3
   \<and> createRow eq4 after_eq3 = (conflict_row, dummy2_tag, after_eq3 \<lparr> idTick := 3 \<rparr>)
   \<and> sym_type (chooseSubject conflict_row dummy2_tag) = Invalid \<and> allDummies conflict_row
   \<and> addConstraint eq4 after_eq3 = Inl (UnsatisfiableConstraint, after_eq3 \<lparr> idTick := 3 \<rparr>)"
proof -
  from subject_precedence [OF eq3_not_held(1) createRow_eq3_again] dummy_rows_invalid(1)
  have a: "addConstraint eq3_again after_eq3
       = addConstraint_install eq3_again redundant_row dummy2_tag (Symbol Dummy 2)
           (after_eq3 \<lparr> idTick := 3 \<rparr>)"
    by (simp add: redundant_row_def dummy2_tag_def)
  from subject_precedence [OF eq3_not_held(2) createRow_eq4] dummy_rows_invalid(2)
  have b: "addConstraint eq4 after_eq3 = Inl (UnsatisfiableConstraint, after_eq3 \<lparr> idTick := 3 \<rparr>)"
    by (simp add: conflict_row_def)
  from a b eq3_not_held createRow_eq3_again createRow_eq4 dummy_rows_invalid show ?thesis
    by simp
qed

section \<open>Duplicate constraints\<close>

lemma solver_substitute_cnMap: "cnMap (solver_substitute symbol row s) = cnMap s"
  by (simp add: solver_substitute_def split: prod.splits)

lemma pivot_cnMap: "cnMap (state_after (pivot leaving entering row s)) = cnMap s"
  by (simp add: pivot_def state_after_def solver_substitute_cnMap Let_def split: sum.splits)

lemma optimize_loop_cnMap: "cnMap (state_after (optimize_loop which n s)) = cnMap s"
proof (induction n arbitrary: s)
  case 0
  then show ?case by (simp add: state_after_def)
next
  case (Suc n)
  show ?case
  proof (cases "objective_row which s")
    case None
    then show ?thesis by (simp add: state_after_def)
  next
    case (Some obj)
    show ?thesis
    proof (cases "imap_erase sym_id (rowMap s) (getLeavingSymbol (getEnteringSymbol obj) s)")
      case (Pair found rows)
      show ?thesis
      proof (cases found)
        case None
        with Some Pair show ?thesis by (simp add: state_after_def Let_def)
      next
        case (Some rowPair)
        let ?p = "pivot (getLeavingSymbol (getEnteringSymbol obj) s) (getEnteringSymbol obj)
                    (snd rowPair) (s \<lparr> rowMap := rows \<rparr>)"
        show ?thesis
        proof (cases ?p)
          case (Inl e)
          with pivot_cnMap [of "getLeavingSymbol (getEnteringSymbol obj) s" "getEnteringSymbol obj"
              "snd rowPair" "s \<lparr> rowMap := rows \<rparr>"]
          have "cnMap (state_after (Inl e)) = cnMap s" by simp
          with Inl Some Pair \<open>objective_row which s = Some obj\<close> show ?thesis
            by (simp add: state_after_def Let_def)
        next
          case (Inr s1)
          with pivot_cnMap [of "getLeavingSymbol (getEnteringSymbol obj) s" "getEnteringSymbol obj"
              "snd rowPair" "s \<lparr> rowMap := rows \<rparr>"]
          have "cnMap s1 = cnMap s" by (simp add: state_after_def)
          with Inr Some Pair \<open>objective_row which s = Some obj\<close> Suc.IH [of s1] show ?thesis
            by (simp add: state_after_def Let_def)
        qed
      qed
    qed
  qed
qed

lemma optimize_cnMap: "cnMap (state_after (optimize which s)) = cnMap s"
  by (simp add: optimize_def optimize_loop_cnMap)

lemma removeConstraintEffects_cnMap: "cnMap (removeConstraintEffects cn tg s) = cnMap s"
  by (simp add: removeConstraintEffects_def removeMarkerEffects_def Let_def split: option.splits)

lemma removeConstraint_only:
  assumes "cnMap s = [(cn, tg)]"
  shows "cnMap (state_after (removeConstraint cn s)) = []"
proof -
  have e: "imap_erase cn_id (cnMap s) cn = (Some (cn, tg), [])"
    using assms by (simp add: imap_erase_def)
  let ?s1 = "removeConstraintEffects cn tg (s \<lparr> cnMap := [] \<rparr>)"
  have c1: "cnMap ?s1 = []" by (simp add: removeConstraintEffects_cnMap)
  show ?thesis
  proof (cases "imap_erase sym_id (rowMap ?s1) (marker tg)")
    case (Pair found rows)
    show ?thesis
    proof (cases found)
      case (Some rowPair)
      with Pair e c1 optimize_cnMap [of TheObjective "?s1 \<lparr> rowMap := rows \<rparr>"] show ?thesis
        by (simp add: removeConstraint_def Let_def)
    next
      case None
      let ?leaving = "getMarkerLeavingSymbol (marker tg) ?s1"
      show ?thesis
      proof (cases "imap_erase sym_id (rowMap ?s1) ?leaving")
        case (Pair found1 rows1)
        note p1 = this
        show ?thesis
        proof (cases found1)
          case None
          with p1 \<open>found = None\<close> \<open>imap_erase sym_id (rowMap ?s1) (marker tg) = (found, rows)\<close> e c1
          show ?thesis
            by (simp add: removeConstraint_def Let_def state_after_def)
        next
          case (Some rowPair)
          show ?thesis
          proof (cases "solveForEx ?leaving (marker tg) (snd rowPair)")
            case (Inl err)
            with Some p1 \<open>found = None\<close>
              \<open>imap_erase sym_id (rowMap ?s1) (marker tg) = (found, rows)\<close> e c1
            show ?thesis
              by (simp add: removeConstraint_def Let_def state_after_def)
          next
            case (Inr row)
            with Some p1 \<open>found = None\<close>
              \<open>imap_erase sym_id (rowMap ?s1) (marker tg) = (found, rows)\<close> e c1
              optimize_cnMap [of TheObjective "solver_substitute (marker tg) row (?s1 \<lparr> rowMap := rows1 \<rparr>)"]
            show ?thesis
              by (simp add: removeConstraint_def Let_def state_after_def solver_substitute_cnMap)
          qed
        qed
      qed
    qed
  qed
qed

text \<open>
  C3: adding a constraint that the solver holds throws 'duplicate constraint' and leaves
  the solver as it was; when it is the only constraint, the solver holds no constraint
  after \<open>removeConstraint\<close>, in the state the call returns with as in the state of any
  throw.
\<close>

theorem duplicate_constraint:
  assumes "hasConstraint cn s"
  shows "addConstraint cn s = Inl (DuplicateConstraint, s)
         \<and> message DuplicateConstraint = ''duplicate constraint''
         \<and> (getConstraints s = [cn] \<longrightarrow>
              getConstraints (state_after (removeConstraint cn s)) = []
              \<and> \<not> hasConstraint cn (state_after (removeConstraint cn s)))"
proof -
  from assms obtain j where "imap_index cn_id (cnMap s) cn = Some j"
    by (auto simp: hasConstraint_def imap_contains_def)
  then have "addConstraint cn s = Inl (DuplicateConstraint, s)"
    by (simp add: addConstraint_def imap_find_def)
  moreover have "cnMap (state_after (removeConstraint cn s)) = []" if "getConstraints s = [cn]"
  proof -
    from that obtain tg where "cnMap s = [(cn, tg)]"
      by (cases "cnMap s") (auto simp: getConstraints_def)
    then show ?thesis by (rule removeConstraint_only)
  qed
  ultimately show ?thesis
    by (simp add: getConstraints_def hasConstraint_def imap_contains_def)
qed

text \<open>
  The required bound \<open>x \<ge> 10\<close> on a new solver: the second add throws, the removal
  returns and leaves neither a constraint nor a row.
\<close>

theorem duplicate_constraint_witness:
  "hasConstraint ge10 after_ge10
   \<and> addConstraint ge10 after_ge10 = Inl (DuplicateConstraint, after_ge10)
   \<and> getConstraints after_ge10 = [ge10]
   \<and> removeConstraint ge10 after_ge10 = Inr (after_ge10 \<lparr> cnMap := [], rowMap := [] \<rparr>)
   \<and> getConstraints (state_after (removeConstraint ge10 after_ge10)) = []"
proof -
  have h: "hasConstraint ge10 after_ge10"
    by (simp add: hasConstraint_def after_ge10_constraints imap_contains_def)
  have g: "getConstraints after_ge10 = [ge10]"
    by (simp add: getConstraints_def after_ge10_constraints)
  from duplicate_constraint [OF h] g remove_ge10 h show ?thesis by simp
qed

section \<open>An unsatisfiable required bound\<close>

text \<open>
  C4: the code at the scenario of the claim.  The second add throws 'unsatisfiable
  constraint' and the first constraint stays in the constraint map, but the failed add
  has pivoted the artificial variable out and dropped it, and \<open>updateVariables\<close> then
  gives \<open>x\<close> the value 5, which is below \<open>10 - 1.0e-8\<close>.
\<close>

theorem failed_add_breaks_bound:
  "Constraint_new 0 (Var x_var) Ge (Num 10) required = Inr ge10
   \<and> Constraint_new 1 (Var x_var) Le (Num 5) required = Inr le5
   \<and> addConstraint ge10 Solver_new = Inr after_ge10
   \<and> addConstraint le5 after_ge10 = Inl (UnsatisfiableConstraint, after_le5)
   \<and> message UnsatisfiableConstraint = ''unsatisfiable constraint''
   \<and> hasConstraint ge10 after_le5
   \<and> rowMap after_le5 =
        [(Symbol External 0, \<lparr> cells = [(Symbol Slack 2, - 1)], row_constant = 5 \<rparr>),
         (Symbol Slack 1, \<lparr> cells = [(Symbol Slack 2, - 1)], row_constant = - 5 \<rparr>)]
   \<and> value_of x_var (updateVariables \<lparr> solver = after_le5, var_values = zero_values \<rparr>) = 5
   \<and> \<not> (10 - 1 / 10 ^ 8 \<le> value_of x_var (updateVariables \<lparr> solver = after_le5, var_values = zero_values \<rparr>))"
  by (simp add: ge10_built le5_built add_ge10 add_le5 after_le5_rows after_le5_has after_le5_value)

section \<open>Edit variables\<close>

lemma Expression_new_Var:
  "Expression_new [Var (Variable i)] = Inr \<lparr> terms = [(Variable i, 1)], expr_constant = 0 \<rparr>"
  by (simp add: Expression_new_def add_term_def imap_defs)

lemma createRow_terms_edit:
  "createRow_terms [(Variable i, 1)] (Row_new 0) Solver_new =
     (\<lparr> cells = [(Symbol External 0, 1)], row_constant = 0 \<rparr>,
      Solver_new \<lparr> idTick := 1, varMap := [(Variable i, Symbol External 0)] \<rparr>)"
  by (simp add: row_defs imap_defs nearZero_simps getVarSymbol_def makeSymbol_def Solver_new_def)

lemma createRow_edit:
  "str < required \<Longrightarrow>
   createRow (edit_constraint cid i str) Solver_new =
     (\<lparr> cells = [(Symbol External 0, 1), (Symbol Error 1, - 1), (Symbol Error 2, 1)],
        row_constant = 0 \<rparr>,
      \<lparr> marker = Symbol Error 1, other = Symbol Error 2 \<rparr>,
      Solver_new \<lparr> idTick := 3, varMap := [(Variable i, Symbol External 0)],
        objective := insertSymbol (Symbol Error 2) str (insertSymbol (Symbol Error 1) str (Row_new 0)) \<rparr>)"
  unfolding createRow_def edit_constraint_def
  apply (simp add: createRow_terms_edit del: createRow_terms.simps)
  apply (simp add: makeSymbol_def Solver_new_def)
  apply (simp add: insertSymbol_def [of _ 1] insertSymbol_def [of _ "- 1"] imap_defs nearZero_simps)
  done

lemma entering_edit_objective:
  "0 \<le> str \<Longrightarrow>
   getEnteringSymbol (insertSymbol (Symbol Error 2) str (insertSymbol (Symbol Error 1) str (Row_new 0)))
     = INVALID_SYMBOL"
  by (cases "nearZero str")
     (simp_all add: getEnteringSymbol_def row_defs imap_defs Let_def)

lemma edit_objective:
  "insertSymbol (Symbol Error 2) str (insertSymbol (Symbol Error 1) str (Row_new 0)) =
     \<lparr> cells = (if nearZero str then [] else [(Symbol Error 1, str), (Symbol Error 2, str)]),
       row_constant = 0 \<rparr>"
  by (simp add: row_defs imap_defs Let_def)

lemma substitute_edit_objective:
  "substitute (Symbol External 0) row
     (insertSymbol (Symbol Error 2) str (insertSymbol (Symbol Error 1) str (Row_new 0))) =
   insertSymbol (Symbol Error 2) str (insertSymbol (Symbol Error 1) str (Row_new 0))"
  by (simp add: edit_objective) (simp add: substitute_def imap_defs)

lemma addConstraint_edit:
  assumes "0 \<le> str" "str < required"
  shows "addConstraint (edit_constraint cid i str) Solver_new = Inr (edit_tableau cid i str 0)"
  unfolding addConstraint_def
  apply (subst createRow_edit [OF assms(2)])
  apply (simp add: Solver_new_def imap_find_def chooseSubject_def INVALID_SYMBOL_def)
  apply (simp add: addConstraint_install_def)
  apply (simp add: solveFor_def imap_defs solver_substitute_def substitute_edit_objective)
  apply (subst optimize_at_minimum)
    apply (simp_all add: entering_edit_objective [OF assms(1)] INVALID_SYMBOL_def
      edit_tableau_def edit_constraint_def Let_def)
  done

lemma addEditVariable_install_fresh:
  assumes "0 \<le> str" "str < required"
  shows "addEditVariable_install cid (Variable i) str Solver_new = Inr (edit_state cid i str 0)"
proof -
  have "clip str = str" using assms by (simp add: clip_def)
  then have "Constraint_new cid (Expr \<lparr> terms = [(Variable i, 1)], expr_constant = 0 \<rparr>) Eq Undefined str
      = Inr (edit_constraint cid i str)"
    by (simp add: Constraint_new_def edit_constraint_def)
  then show ?thesis
    by (simp add: addEditVariable_install_def Expression_new_Var addConstraint_edit [OF assms])
       (simp add: edit_tableau_def edit_state_def imap_defs edit_constraint_def)
qed

lemma addEditVariable_strong:
  "addEditVariable cid (Variable i) strong Solver_new = Inr (edit_state cid i strong 0)"
  by (simp add: addEditVariable_def Solver_new_def imap_find_def clip_def
      addEditVariable_install_fresh [unfolded Solver_new_def] strong_value required_value)










text \<open>
  C9, as stated, fails for a variable that is an edit variable already: the first check
  of \<open>addEditVariable\<close> throws 'duplicate edit variable' whatever the strength is.
\<close>

theorem duplicate_edit_variable:
  "addEditVariable 0 (Variable 0) strong Solver_new = Inr (edit_state 0 0 strong 0)
   \<and> required \<le> required
   \<and> addEditVariable 1 (Variable 0) required (edit_state 0 0 strong 0)
       = Inl (DuplicateEditVariable, edit_state 0 0 strong 0)"
  by (simp add: addEditVariable_strong)
     (simp add: addEditVariable_def edit_state_def edit_tableau_def imap_defs)

text \<open>
  C9 (amended): for a variable that is an edit variable already, \<open>addEditVariable\<close>
  throws 'duplicate edit variable' whatever the strength is, and leaves the solver as it
  was.  For a variable that is not an edit variable yet, it clips the strength to
  \<open>[0, required]\<close> first; a strength of at least \<open>required\<close> throws 'bad required
  strength' and leaves the solver as it was; a strength below \<open>required\<close> passes the
  check, the call goes on with the strength clipped at 0, and on a new solver it returns
  with the edit variable installed.
\<close>

theorem addEditVariable_strength:
  "(hasEditVariable v s \<longrightarrow> addEditVariable cid v str s = Inl (DuplicateEditVariable, s))
   \<and> message DuplicateEditVariable = ''duplicate edit variable''
   \<and> (\<not> hasEditVariable v s \<longrightarrow>
        (required \<le> str \<longrightarrow> addEditVariable cid v str s = Inl (BadRequiredStrength, s))
        \<and> (str < required \<longrightarrow>
             addEditVariable cid v str s = addEditVariable_install cid v (max 0 str) s))
   \<and> message BadRequiredStrength = ''bad required strength''
   \<and> (str < required \<longrightarrow>
        addEditVariable cid v str Solver_new = Inr (edit_state cid (var_id v) (max 0 str) 0)
        \<and> hasEditVariable v (edit_state cid (var_id v) (max 0 str) 0))"
proof -
  have rq: "0 < required" by (simp add: required_value)
  have dup: "addEditVariable cid v str s = Inl (DuplicateEditVariable, s)" if "hasEditVariable v s"
  proof -
    from that obtain j where "imap_index var_id (editMap s) v = Some j"
      by (auto simp: hasEditVariable_def imap_contains_def)
    then show ?thesis by (simp add: addEditVariable_def imap_find_def)
  qed
  have none: "imap_find var_id (editMap s) v = None" if "\<not> hasEditVariable v s"
    using that by (simp add: hasEditVariable_def imap_contains_def imap_find_def split: option.splits)
  have a: "addEditVariable cid v str s = Inl (BadRequiredStrength, s)"
    if "\<not> hasEditVariable v s" "required \<le> str"
    using that(2) none [OF that(1)] rq by (simp add: addEditVariable_def clip_def min_def max_def)
  have b: "clip str = max 0 str \<and> max 0 str \<noteq> required" if "str < required"
    using that rq by (auto simp: clip_def min_def max_def)
  have c: "addEditVariable cid v str s = addEditVariable_install cid v (max 0 str) s"
    if "\<not> hasEditVariable v s" "str < required"
    using b [OF that(2)] none [OF that(1)] by (simp add: addEditVariable_def)
  have d: "addEditVariable cid v str Solver_new = Inr (edit_state cid (var_id v) (max 0 str) 0)"
    if "str < required"
  proof -
    have "max 0 str < required" "0 \<le> max 0 str" using that rq by auto
    from addEditVariable_install_fresh [OF this(2) this(1), of cid "var_id v"] b [OF that]
    show ?thesis
      by (cases v) (simp add: addEditVariable_def Solver_new_def imap_find_def)
  qed
  have e: "hasEditVariable v (edit_state cid (var_id v) (max 0 str) 0)"
    by (cases v) (simp add: hasEditVariable_def edit_state_def imap_defs)
  from dup a c d e show ?thesis by simp
qed

text \<open>
  C9 (amended) on a new solver, above and below the required strength, and on the solver
  that has the edit variable already, at a strength below and at the required strength.
\<close>

theorem addEditVariable_strength_witness:
  "\<not> hasEditVariable (Variable 0) Solver_new
   \<and> required \<le> required + 1
   \<and> addEditVariable 0 (Variable 0) (required + 1) Solver_new = Inl (BadRequiredStrength, Solver_new)
   \<and> strong < required
   \<and> addEditVariable 0 (Variable 0) strong Solver_new = Inr (edit_state 0 0 strong 0)
   \<and> hasEditVariable (Variable 0) (edit_state 0 0 strong 0)
   \<and> addEditVariable 1 (Variable 0) strong (edit_state 0 0 strong 0)
       = Inl (DuplicateEditVariable, edit_state 0 0 strong 0)
   \<and> addEditVariable 1 (Variable 0) required (edit_state 0 0 strong 0)
       = Inl (DuplicateEditVariable, edit_state 0 0 strong 0)"
proof -
  have h: "\<not> hasEditVariable (Variable 0) Solver_new"
    by (simp add: hasEditVariable_def Solver_new_def imap_contains_def)
  have s: "strong < required" "max 0 strong = strong" by (simp_all add: strong_value required_value)
  from addEditVariable_strength [of "Variable 0" Solver_new 0 "required + 1"] h
  have a: "addEditVariable 0 (Variable 0) (required + 1) Solver_new
             = Inl (BadRequiredStrength, Solver_new)"
    by simp
  from addEditVariable_strength [of "Variable 0" Solver_new 0 strong, unfolded s(2)] s(1)
  have "addEditVariable 0 (Variable 0) strong Solver_new
          = Inr (edit_state 0 (var_id (Variable 0)) strong 0)
        \<and> hasEditVariable (Variable 0) (edit_state 0 (var_id (Variable 0)) strong 0)"
    by blast
  then have b: "addEditVariable 0 (Variable 0) strong Solver_new = Inr (edit_state 0 0 strong 0)"
    and he: "hasEditVariable (Variable 0) (edit_state 0 0 strong 0)"
    by simp_all
  from addEditVariable_strength [of "Variable 0" "edit_state 0 0 strong 0" 1 strong] he
  have c: "addEditVariable 1 (Variable 0) strong (edit_state 0 0 strong 0)
             = Inl (DuplicateEditVariable, edit_state 0 0 strong 0)"
    by blast
  from addEditVariable_strength [of "Variable 0" "edit_state 0 0 strong 0" 1 required] he
  have d: "addEditVariable 1 (Variable 0) required (edit_state 0 0 strong 0)
             = Inl (DuplicateEditVariable, edit_state 0 0 strong 0)"
    by blast
  from a b c d h he s show ?thesis by simp
qed

section \<open>Feasibility of the rows\<close>


subsection \<open>Keys of rows under the row operations\<close>





lemma insertRow_cells_constant [simp]:
  "row_constant (insertRow_cells m c row) = row_constant row"
  by (induction m arbitrary: row) simp_all







subsection \<open>The loop of \<open>_substitute\<close>\<close>










subsection \<open>One pivot of the dual simplex\<close>




subsection \<open>The loop of \<open>_dualOptimize\<close>\<close>



subsection \<open>The changes \<open>suggestValue\<close> makes before the dual simplex\<close>










subsection \<open>Runs of calls\<close>










text \<open>
  Outside such runs: \<open>addConstraint\<close> accepts \<open>1.0e-8 * x + 5.0e-9 \<le> 0\<close> after \<open>x \<ge> 0\<close>,
  because the artificial objective ends within the tolerance of zero, and leaves the row
  of a Slack symbol with the constant \<open>-1/2\<close>.
\<close>

lemma addConstraint_negative_slack_row:
  "addConstraint ge0 Solver_new = Inr after_ge0
   \<and> addConstraint tiny_le after_ge0 = Inr after_tiny_le
   \<and> rowMap after_tiny_le =
        [(Symbol External 0, \<lparr> cells = [(Symbol Slack 2, - 100000000)], row_constant = - (1 / 2) \<rparr>),
         (Symbol Slack 1, \<lparr> cells = [(Symbol Slack 2, - 100000000)], row_constant = - (1 / 2) \<rparr>)]"
  by code_simp

end
